theory Spec2Isabelle
  imports Complex_Main "HOL-Library.Sublist" "HOL-Library.Char_ord" "HOL-Library.List_Lexorder"
begin

section \<open>Python values used by the scraper\<close>

text \<open>
  A Python \<open>str\<close> is a \<open>string\<close>; a character outside ASCII stands as its UTF-8
  bytes, which leaves splitting on an ASCII character, replacing an ASCII pattern and the
  lexicographic order of \<open>sorted\<close> as they are on code points. An optional
  argument (\<open>str = None\<close>) is a \<open>string option\<close>.
\<close>

definition euro :: string where
  "euro = [CHR 0xE2, CHR 0x82, CHR 0xAC]"

text \<open>Truthiness of an optional string: \<open>None\<close> and \<open>""\<close> are both falsy.\<close>

fun truthy :: "string option \<Rightarrow> string option" where
  "truthy None = None"
| "truthy (Some s) = (if s = [] then None else Some s)"

text \<open>
  \<open>str.isspace\<close> on the ASCII range: tab, line feed, vertical tab, form feed, carriage
  return, the four separators 0x1C..0x1F and the space.
\<close>

definition py_isspace :: "char \<Rightarrow> bool" where
  "py_isspace c = ((9 \<le> (of_char c :: nat) \<and> (of_char c :: nat) \<le> 13)
                 \<or> (28 \<le> (of_char c :: nat) \<and> (of_char c :: nat) \<le> 32))"

definition py_lstrip :: "string \<Rightarrow> string" where
  "py_lstrip s = dropWhile py_isspace s"

definition py_rstrip :: "string \<Rightarrow> string" where
  "py_rstrip s = rev (dropWhile py_isspace (rev s))"

text \<open>\<open>s.strip()\<close>\<close>

definition py_strip :: "string \<Rightarrow> string" where
  "py_strip s = py_lstrip (py_rstrip s)"

text \<open>\<open>s.rstrip("/")\<close>: every trailing slash goes.\<close>

definition rstrip_slash :: "string \<Rightarrow> string" where
  "rstrip_slash s = rev (dropWhile (\<lambda>c. c = CHR ''/'') (rev s))"

text \<open>
  \<open>s.split(sep, 1)\<close> for a one-character separator: the text before the first
  separator and, when there is one, the text after it.
\<close>

fun split_once :: "char \<Rightarrow> string \<Rightarrow> string list" where
  "split_once sep s =
     (if sep \<in> set s
      then [takeWhile (\<lambda>c. c \<noteq> sep) s, tl (dropWhile (\<lambda>c. c \<noteq> sep) s)]
      else [s])"


text \<open>\<open>pat in s\<close> for strings: \<open>pat\<close> occurs in \<open>s\<close> as a contiguous block.\<close>

fun contains :: "string \<Rightarrow> string \<Rightarrow> bool" where
  "contains pat [] = (pat = [])"
| "contains pat (c # cs) = (prefix pat (c # cs) \<or> contains pat cs)"

text \<open>
  \<open>re.sub(pat, rep, s)\<close> for a pattern without metacharacters: the non-overlapping
  occurrences of \<open>pat\<close> are replaced from left to right. \<open>skip\<close> counts the
  characters of the current occurrence that are still to be consumed.
\<close>

fun re_sub_scan :: "string \<Rightarrow> string \<Rightarrow> nat \<Rightarrow> string \<Rightarrow> string" where
  "re_sub_scan pat rep skip [] = []"
| "re_sub_scan pat rep (Suc k) (c # cs) = re_sub_scan pat rep k cs"
| "re_sub_scan pat rep 0 (c # cs) =
     (if prefix pat (c # cs) \<and> pat \<noteq> []
      then rep @ re_sub_scan pat rep (length pat - 1) cs
      else c # re_sub_scan pat rep 0 cs)"

definition re_sub :: "string \<Rightarrow> string \<Rightarrow> string \<Rightarrow> string" where
  "re_sub pat rep s = re_sub_scan pat rep 0 s"

subsection \<open>Exceptions\<close>

datatype exc_class =
  ValueError | RuntimeError | KeyError | AttributeError | InvalidIndexError
  | RequestException | OtherException

text \<open>An exception: its class and \<open>str(ex)\<close>.\<close>

datatype error = Error exc_class string

fun exc_str :: "error \<Rightarrow> string" where
  "exc_str (Error c m) = m"

subsection \<open>Tables\<close>

text \<open>A column label: a string, a position (as \<open>str.split(expand=True)\<close> numbers its
  columns) or \<open>None\<close>.\<close>

datatype label = LStr string | LInt int | LNone

text \<open>
  The columns of a frame as \<open>read_html\<close> hands it over: a flat index, or a
  \<open>MultiIndex\<close> whose entries are tuples of level values.
\<close>

datatype col_index = Index "label list" | MultiIndex "label list list"

text \<open>
  A cell: a string, a number (it stands for any value that is neither a string nor null;
  the code never looks inside one) or a null (\<open>None\<close>, \<open>NaN\<close>, \<open>pd.NA\<close>).
\<close>

datatype cell = Str string | Num int | Null

text \<open>
  Only whether a column's dtype is \<open>object\<close> matters to the code; text is held in
  \<open>object\<close> columns, as pandas does before version 3.
\<close>

datatype dtype = Object | Numeric

record series =
  sdtype :: dtype
  vals :: "cell list"

text \<open>
  A frame: the length of its row index and its columns from left to right. Labels may
  repeat.
\<close>

record dataframe =
  nrows :: nat
  cols :: "(label \<times> series) list"

definition labels :: "dataframe \<Rightarrow> label list" where
  "labels df = map fst (cols df)"

section \<open>Configuration\<close>

definition BASE_URL :: string where
  "BASE_URL = ''https://www.transfermarkt.us''"

definition LEAGUE_MAP :: "string \<rightharpoonup> string \<times> string" where
  "LEAGUE_MAP = [
     ''Spain'' \<mapsto> (''laliga'', ''ES1''),
     ''England'' \<mapsto> (''premier-league'', ''GB1''),
     ''Italy'' \<mapsto> (''serie-a'', ''IT1''),
     ''Germany'' \<mapsto> (''bundesliga'', ''L1''),
     ''France'' \<mapsto> (''ligue-1'', ''FR1'')]"

section \<open>Flattening a column index\<close>

text \<open>
  \<open>for lvl0, lvl1 in cols\<close> unpacks each tuple into two names and raises
  \<open>ValueError\<close> on a tuple of any other length.
\<close>

fun flatten_entry :: "label list \<Rightarrow> error + label" where
  "flatten_entry [lvl0, lvl1] =
     Inr (if lvl1 \<noteq> LStr [] \<and> lvl1 \<noteq> LNone then lvl1 else lvl0)"
| "flatten_entry (lvl0 # lvl1 # lvl2 # rest) =
     Inl (Error ValueError ''too many values to unpack (expected 2)'')"
| "flatten_entry [lvl0] =
     Inl (Error ValueError ''not enough values to unpack (expected 2, got 1)'')"
| "flatten_entry [] =
     Inl (Error ValueError ''not enough values to unpack (expected 2, got 0)'')"

text \<open>The list comprehension: the first tuple that cannot be unpacked raises.\<close>

fun flatten_entries :: "label list list \<Rightarrow> error + label list" where
  "flatten_entries [] = Inr []"
| "flatten_entries (t # ts) =
     (case flatten_entry t of
        Inl e \<Rightarrow> Inl e
      | Inr l \<Rightarrow> (case flatten_entries ts of Inl e \<Rightarrow> Inl e | Inr ls \<Rightarrow> Inr (l # ls)))"

fun flatten_columns :: "col_index \<Rightarrow> error + label list" where
  "flatten_columns (MultiIndex tuples) = flatten_entries tuples"
| "flatten_columns (Index ls) = Inr ls"


section \<open>The table operations the code calls\<close>

text \<open>\<open>df.rename(columns=m)\<close>: a label in \<open>m\<close> is replaced, any other label stays.\<close>

definition rename_label :: "(label \<rightharpoonup> label) \<Rightarrow> label \<Rightarrow> label" where
  "rename_label m l = (case m l of Some l' \<Rightarrow> l' | None \<Rightarrow> l)"

definition rename_columns :: "(label \<rightharpoonup> label) \<Rightarrow> dataframe \<Rightarrow> dataframe" where
  "rename_columns m df = df\<lparr>cols := map (\<lambda>(l, s). (rename_label m l, s)) (cols df)\<rparr>"

fun is_Str :: "cell \<Rightarrow> bool" where
  "is_Str (Str s) = True"
| "is_Str c = False"

text \<open>
  The \<open>.str\<close> accessor of a column. It is there for an \<open>object\<close> column that holds a
  string or nothing but nulls, and raises \<open>AttributeError\<close> for any other column.
\<close>

definition str_accessor :: "series \<Rightarrow> error + cell list" where
  "str_accessor s =
     (if sdtype s = Object \<and> (list_ex is_Str (vals s) \<or> list_all (\<lambda>c. c = Null) (vals s))
      then Inr (vals s)
      else Inl (Error AttributeError ''Can only use .str accessor with string values!''))"

text \<open>
  \<open>df[name].str\<close>: \<open>KeyError\<close> without such a column; with several columns of
  that name \<open>df[name]\<close> is a frame, which has no \<open>.str\<close>.
\<close>

definition getitem_str :: "dataframe \<Rightarrow> string \<Rightarrow> error + cell list" where
  "getitem_str df name =
     (case filter (\<lambda>(l, s). l = LStr name) (cols df) of
        [] \<Rightarrow> Inl (Error KeyError (CHR 0x27 # name @ [CHR 0x27]))
      | [(l, s)] \<Rightarrow> str_accessor s
      | c # d # cs \<Rightarrow> Inl (Error AttributeError
                        (CHR 0x27 # ''DataFrame'' @ CHR 0x27 # '' object has no attribute ''
                           @ CHR 0x27 # ''str'' @ [CHR 0x27])))"

text \<open>\<open>col.str.strip()\<close>: a string is stripped, anything else becomes null.\<close>

fun strip_cell :: "cell \<Rightarrow> cell" where
  "strip_cell (Str s) = Str (py_strip s)"
| "strip_cell c = Null"

text \<open>\<open>lambda col: col.str.strip() if col.dtype == "object" else col\<close>\<close>

definition strip_column :: "series \<Rightarrow> error + series" where
  "strip_column s =
     (if sdtype s = Object
      then (case str_accessor s of
              Inl e \<Rightarrow> Inl e
            | Inr vs \<Rightarrow> Inr \<lparr>sdtype = Object, vals = map strip_cell vs\<rparr>)
      else Inr s)"

fun strip_columns :: "(label \<times> series) list \<Rightarrow> error + (label \<times> series) list" where
  "strip_columns [] = Inr []"
| "strip_columns ((l, s) # cs) =
     (case strip_column s of
        Inl e \<Rightarrow> Inl e
      | Inr s' \<Rightarrow> (case strip_columns cs of Inl e \<Rightarrow> Inl e | Inr cs' \<Rightarrow> Inr ((l, s') # cs')))"

text \<open>\<open>df.apply(...)\<close> with the function above, column by column.\<close>

definition apply_strip :: "dataframe \<Rightarrow> error + dataframe" where
  "apply_strip df =
     (case strip_columns (cols df) of Inl e \<Rightarrow> Inl e | Inr cs \<Rightarrow> Inr (df\<lparr>cols := cs\<rparr>))"

definition newline :: char where
  "newline = CHR 0x0A"

text \<open>
  One element under \<open>.str.split("\n", n=1, expand=True)\<close>: a string gives its one or
  two parts, anything else a single null.
\<close>

fun split_parts :: "cell \<Rightarrow> cell list" where
  "split_parts (Str s) = map Str (split_once newline s)"
| "split_parts c = [Null]"

text \<open>
  The expanded frame has as many columns, numbered from 0, as the longest element has
  parts (none when there is no row); a shorter element is padded with nulls.
\<close>

definition str_split_expand :: "cell list \<Rightarrow> dataframe" where
  "str_split_expand vs =
     (let parts = map split_parts vs;
          width = fold max (map length parts) 0
      in \<lparr>nrows = length vs,
          cols = map (\<lambda>j. (LInt (int j),
                            \<lparr>sdtype = Object,
                             vals = map (\<lambda>p. if j < length p then p ! j else Null) parts\<rparr>))
                     [0..<width]\<rparr>)"

text \<open>\<open>df[name] = scalar\<close>: every column of that name is overwritten where it stands;
  without one, a new column is appended.\<close>

definition setitem_scalar :: "dataframe \<Rightarrow> label \<Rightarrow> cell \<Rightarrow> dataframe" where
  "setitem_scalar df l c =
     (let new = \<lparr>sdtype = Object, vals = replicate (nrows df) c\<rparr>
      in if l \<in> set (labels df)
         then df\<lparr>cols := map (\<lambda>(l', s). if l' = l then (l', new) else (l', s)) (cols df)\<rparr>
         else df\<lparr>cols := cols df @ [(l, new)]\<rparr>)"

text \<open>\<open>df.insert(0, name, scalar)\<close> refuses a name the frame already has.\<close>

definition insert_first :: "dataframe \<Rightarrow> string \<Rightarrow> cell \<Rightarrow> error + dataframe" where
  "insert_first df name c =
     (if LStr name \<in> set (labels df)
      then Inl (Error ValueError (''cannot insert '' @ name @ '', already exists''))
      else Inr (df\<lparr>cols := (LStr name, \<lparr>sdtype = Object, vals = replicate (nrows df) c\<rparr>)
                              # cols df\<rparr>))"

text \<open>\<open>df.drop(columns=name)\<close>, called where the column is known to be there.\<close>

definition drop_columns :: "dataframe \<Rightarrow> label \<Rightarrow> dataframe" where
  "drop_columns df l = df\<lparr>cols := filter (\<lambda>(l', s). l' \<noteq> l) (cols df)\<rparr>"

text \<open>\<open>pd.concat([a, b], axis=1)\<close> of two frames over the same row index.\<close>

definition concat_columns :: "dataframe \<Rightarrow> dataframe \<Rightarrow> dataframe" where
  "concat_columns a b = a\<lparr>cols := cols a @ cols b\<rparr>"

text \<open>\<open>pd.DataFrame()\<close>\<close>

definition empty_frame :: dataframe where
  "empty_frame = \<lparr>nrows = 0, cols = []\<rparr>"

subsection \<open>Stacking frames: \<open>pd.concat(frames, ignore_index=True)\<close>\<close>

text \<open>
  The columns of the result: those of the frames when all frames agree, otherwise every
  label once, in the order of first appearance.
\<close>

fun concat_labels :: "dataframe list \<Rightarrow> label list" where
  "concat_labels [] = []"
| "concat_labels (f # fs) =
     (if list_all (\<lambda>g. labels g = labels f) fs
      then labels f
      else rev (remdups (rev (concat (map labels (f # fs))))))"

text \<open>
  A frame is brought to the new columns: left alone when it has them already; otherwise
  looked up by label, which needs its labels to be unique, a missing column being all
  null.
\<close>

definition reindex_columns :: "label list \<Rightarrow> dataframe \<Rightarrow> error + series list" where
  "reindex_columns new f =
     (if labels f = new then Inr (map snd (cols f))
      else if \<not> distinct (labels f)
      then Inl (Error InvalidIndexError
                  ''Reindexing only valid with uniquely valued Index objects'')
      else Inr (map (\<lambda>l. case map_of (cols f) l of
                            Some s \<Rightarrow> s
                          | None \<Rightarrow> \<lparr>sdtype = Numeric, vals = replicate (nrows f) Null\<rparr>)
                    new))"

fun reindex_all :: "label list \<Rightarrow> dataframe list \<Rightarrow> error + series list list" where
  "reindex_all new [] = Inr []"
| "reindex_all new (f # fs) =
     (case reindex_columns new f of
        Inl e \<Rightarrow> Inl e
      | Inr ss \<Rightarrow> (case reindex_all new fs of Inl e \<Rightarrow> Inl e | Inr sss \<Rightarrow> Inr (ss # sss)))"

text \<open>The pieces of one column, one under the other.\<close>

definition stack_series :: "series list \<Rightarrow> series" where
  "stack_series ss =
     \<lparr>sdtype = (if list_ex (\<lambda>s. sdtype s = Object) ss then Object else Numeric),
      vals = concat (map vals ss)\<rparr>"

definition pd_concat :: "dataframe list \<Rightarrow> error + dataframe" where
  "pd_concat frames =
     (if frames = [] then Inl (Error ValueError ''No objects to concatenate'')
      else let new = concat_labels frames
           in case reindex_all new frames of
                Inl e \<Rightarrow> Inl e
              | Inr sss \<Rightarrow>
                  Inr \<lparr>nrows = sum_list (map nrows frames),
                       cols = map (\<lambda>j. (new ! j, stack_series (map (\<lambda>ss. ss ! j) sss)))
                                  [0..<length new]\<rparr>)"

section \<open>What lies outside the code\<close>

text \<open>
  A frame as \<open>pd.read_html(...)[0]\<close> returns it: the number of rows and the columns,
  each under a flat label or under a tuple of level values.
\<close>

datatype raw_frame =
  FlatFrame nat "(label \<times> series) list"
  | MultiFrame nat "(label list \<times> series) list"

fun raw_columns :: "raw_frame \<Rightarrow> col_index" where
  "raw_columns (FlatFrame n cs) = Index (map fst cs)"
| "raw_columns (MultiFrame n cs) = MultiIndex (map fst cs)"

fun raw_nrows :: "raw_frame \<Rightarrow> nat" where
  "raw_nrows (FlatFrame n cs) = n"
| "raw_nrows (MultiFrame n cs) = n"

fun raw_series :: "raw_frame \<Rightarrow> series list" where
  "raw_series (FlatFrame n cs) = map snd cs"
| "raw_series (MultiFrame n cs) = map snd cs"

text \<open>\<open>df.columns = flat\<close>; \<open>flat\<close> has one label per column.\<close>

definition set_columns :: "raw_frame \<Rightarrow> label list \<Rightarrow> dataframe" where
  "set_columns raw flat = \<lparr>nrows = raw_nrows raw, cols = zip flat (raw_series raw)\<rparr>"

text \<open>
  The network, the HTML parser, the table reader and the URL functions of the standard
  library are taken as given:
  \<^item> \<open>http_get url\<close> is \<open>sess.get(url, ...)\<close> followed by
    \<open>raise_for_status()\<close>: the text of the response, or the exception raised;
  \<^item> \<open>find_items_table text\<close> is \<open>soup.find("table", class_="items")\<close>, as the
    markup \<open>str(table)\<close>, or \<open>None\<close>;
  \<^item> \<open>read_html markup\<close> is \<open>pd.read_html(StringIO(markup), flavor="lxml")[0]\<close>;
  \<^item> \<open>h1_strings text\<close> is the list of text nodes below \<open>soup.select_one("h1")\<close>,
    or \<open>None\<close> without such an element;
  \<^item> \<open>anchor_hrefs text\<close> is the \<open>href\<close> of every \<open>a\<close> element that has one,
    in document order;
  \<^item> \<open>urlparse_scheme\<close>, \<open>urlparse_netloc\<close> and \<open>urljoin\<close> are those of
    \<open>urllib.parse\<close>.
  The session, the headers \<open>BASE_HEADERS\<close> and the timeout are handed through to the
  network and are left out.
\<close>

record world =
  http_get :: "string \<Rightarrow> error + string"
  find_items_table :: "string \<Rightarrow> string option"
  read_html :: "string \<Rightarrow> error + raw_frame"
  h1_strings :: "string \<Rightarrow> string list option"
  anchor_hrefs :: "string \<Rightarrow> string list"
  urlparse_scheme :: "string \<Rightarrow> string"
  urlparse_netloc :: "string \<Rightarrow> string"
  urljoin :: "string \<Rightarrow> string \<Rightarrow> string"

text \<open>What a call does besides returning, in the order it happens.\<close>

datatype event = HttpGet string | Sleep real | Print string

text \<open>\<open>time.sleep(secs)\<close> raises \<open>ValueError\<close> on a negative length.\<close>

definition time_sleep :: "real \<Rightarrow> (error + unit) \<times> event list" where
  "time_sleep secs =
     (if secs < 0 then (Inl (Error ValueError ''sleep length must be non-negative''), [])
      else (Inr (), [Sleep secs]))"

text \<open>\<open>element.get_text(strip=True)\<close>: every text node is stripped, the empty ones are
  dropped, the rest is joined.\<close>

definition get_text_strip :: "string list \<Rightarrow> string" where
  "get_text_strip pieces = concat (filter (\<lambda>s. s \<noteq> []) (map py_strip pieces))"


section \<open>Injuries of a league\<close>

definition msg_unmapped :: string where
  "msg_unmapped = ''Pa'' @ [CHR 0xC3, CHR 0xAD] @ ''s n'' @ [CHR 0xC3, CHR 0xA3]
     @ ''o mapeado; informe slug e c'' @ [CHR 0xC3, CHR 0xB3] @ ''digo manualmente.''"

definition msg_missing :: string where
  "msg_missing = ''Faltou league_slug ou league_code.''"

definition msg_no_injury_table :: string where
  "msg_no_injury_table = ''Tabela de les'' @ [CHR 0xC3, CHR 0xB5] @ ''es n''
     @ [CHR 0xC3, CHR 0xA3] @ ''o encontrada.''"

text \<open>
  The first two statements: a truthy \<open>country_name\<close> is looked up in the map and
  overrides the manual pair; then both parts of the pair must be truthy. The result is
  the pair the URL is built from, or the \<open>ValueError\<close>.
\<close>

definition resolve_league ::
  "string option \<Rightarrow> string option \<Rightarrow> string option \<Rightarrow> error + string \<times> string" where
  "resolve_league country_name league_slug league_code =
     (case (case truthy country_name of
              Some name \<Rightarrow>
                (case LEAGUE_MAP name of
                   Some (slug, code) \<Rightarrow> Inr (Some slug, Some code)
                 | None \<Rightarrow> Inl (Error ValueError msg_unmapped))
            | None \<Rightarrow> Inr (league_slug, league_code)) of
        Inl e \<Rightarrow> Inl e
      | Inr (slug, code) \<Rightarrow>
          (case (truthy slug, truthy code) of
             (Some s, Some c) \<Rightarrow> Inr (s, c)
           | _ \<Rightarrow> Inl (Error ValueError msg_missing)))"

definition league_url :: "string \<Rightarrow> string \<Rightarrow> string" where
  "league_url slug code = BASE_URL @ ''/'' @ slug @ ''/verletztespieler/wettbewerb/'' @ code"

definition LEAGUE_RENAME :: "label \<rightharpoonup> label" where
  "LEAGUE_RENAME = [
     LStr ''Club'' \<mapsto> LStr ''Team'',
     LStr ''Injury'' \<mapsto> LStr ''Injury Type'',
     LStr ''until'' \<mapsto> LStr ''Expected Return'',
     LStr ''Market Value'' \<mapsto> LStr (''Market Value ('' @ euro @ '')'')]"

text \<open>The block that separates player and position.\<close>

definition split_player_position :: "dataframe \<Rightarrow> error + dataframe" where
  "split_player_position df =
     (case getitem_str df ''Player/Position'' of
        Inl e \<Rightarrow> Inl e
      | Inr vs \<Rightarrow>
          let split_cols = rename_columns [LInt 0 \<mapsto> LStr ''Player'', LInt 1 \<mapsto> LStr ''Position'']
                             (str_split_expand vs);
              split_cols' = (if LStr ''Position'' \<notin> set (labels split_cols)
                             then setitem_scalar split_cols (LStr ''Position'') Null
                             else split_cols)
          in Inr (concat_columns (drop_columns df (LStr ''Player/Position'')) split_cols'))"

text \<open>Everything after the response has arrived.\<close>

definition league_table :: "world \<Rightarrow> string \<Rightarrow> error + dataframe" where
  "league_table w text =
     (case find_items_table w text of
        None \<Rightarrow> Inl (Error RuntimeError msg_no_injury_table)
      | Some table \<Rightarrow>
          (case read_html w table of
             Inl e \<Rightarrow> Inl e
           | Inr raw \<Rightarrow>
               (case flatten_columns (raw_columns raw) of
                  Inl e \<Rightarrow> Inl e
                | Inr flat \<Rightarrow>
                    (case split_player_position (set_columns raw flat) of
                       Inl e \<Rightarrow> Inl e
                     | Inr df \<Rightarrow> apply_strip (rename_columns LEAGUE_RENAME df)))))"

definition get_league_injuries ::
  "world \<Rightarrow> string option \<Rightarrow> string option \<Rightarrow> string option
     \<Rightarrow> (error + dataframe) \<times> event list" where
  "get_league_injuries w country_name league_slug league_code =
     (case resolve_league country_name league_slug league_code of
        Inl e \<Rightarrow> (Inl e, [])
      | Inr (slug, code) \<Rightarrow>
          (case http_get w (league_url slug code) of
             Inl e \<Rightarrow> (Inl e, [HttpGet (league_url slug code)])
           | Inr text \<Rightarrow> (league_table w text, [HttpGet (league_url slug code)])))"

section \<open>Player URLs of a team\<close>


section \<open>Injury history of one player\<close>

definition msg_no_history :: string where
  "msg_no_history = ''Hist'' @ [CHR 0xC3, CHR 0xB3] @ ''rico de les'' @ [CHR 0xC3, CHR 0xB5]
     @ ''es n'' @ [CHR 0xC3, CHR 0xA3] @ ''o encontrado.''"

definition HISTORY_RENAME :: "label \<rightharpoonup> label" where
  "HISTORY_RENAME = [
     LStr ''From'' \<mapsto> LStr ''Start'',
     LStr ''Until'' \<mapsto> LStr ''End'',
     LStr ''Days'' \<mapsto> LStr ''Days Missed'',
     LStr ''Games missed'' \<mapsto> LStr ''Games Missed'',
     LStr ''Matches missed'' \<mapsto> LStr ''Games Missed'']"

definition injury_url :: "string \<Rightarrow> string" where
  "injury_url player_url = re_sub ''/profil/'' ''/verletzungen/'' (rstrip_slash player_url)"

text \<open>Everything after the response has arrived.\<close>

definition history_table :: "world \<Rightarrow> string \<Rightarrow> string \<Rightarrow> error + dataframe" where
  "history_table w text player_url =
     (case find_items_table w text of
        None \<Rightarrow> Inl (Error RuntimeError msg_no_history)
      | Some table \<Rightarrow>
          (case read_html w table of
             Inl e \<Rightarrow> Inl e
           | Inr raw \<Rightarrow>
               (case flatten_columns (raw_columns raw) of
                  Inl e \<Rightarrow> Inl e
                | Inr flat \<Rightarrow>
                    (case h1_strings w text of
                       None \<Rightarrow> Inl (Error AttributeError
                                 (CHR 0x27 # ''NoneType'' @ CHR 0x27 # '' object has no attribute ''
                                    @ CHR 0x27 # ''get_text'' @ [CHR 0x27]))
                     | Some pieces \<Rightarrow>
                         (case insert_first (rename_columns HISTORY_RENAME (set_columns raw flat))
                                 ''Player'' (Str (get_text_strip pieces)) of
                            Inl e \<Rightarrow> Inl e
                          | Inr df \<Rightarrow>
                              apply_strip
                                (setitem_scalar df (LStr ''Profile URL'') (Str player_url)))))))"

definition get_player_injury_history ::
  "world \<Rightarrow> string \<Rightarrow> (error + dataframe) \<times> event list" where
  "get_player_injury_history w player_url =
     (case http_get w (injury_url player_url) of
        Inl e \<Rightarrow> (Inl e, [HttpGet (injury_url player_url)])
      | Inr text \<Rightarrow> (history_table w text player_url, [HttpGet (injury_url player_url)]))"

section \<open>Injury histories of several players\<close>

text \<open>\<open>f"[WARN] falhou em {url}: {ex}"\<close>\<close>

definition warn_line :: "string \<Rightarrow> error \<Rightarrow> string" where
  "warn_line url ex = ''[WARN] falhou em '' @ url @ '': '' @ exc_str ex"

text \<open>
  The loop, with the list \<open>frames\<close> and the events so far. The \<open>try\<close> block covers
  the extraction, the \<open>append\<close> and the sleep, in this order.
\<close>

fun batch_loop ::
  "world \<Rightarrow> real \<Rightarrow> string list \<Rightarrow> dataframe list \<Rightarrow> event list
     \<Rightarrow> dataframe list \<times> event list" where
  "batch_loop w pause [] frames evs = (frames, evs)"
| "batch_loop w pause (url # urls) frames evs =
     (case get_player_injury_history w url of
        (Inl ex, evs1) \<Rightarrow>
          batch_loop w pause urls frames (evs @ evs1 @ [Print (warn_line url ex)])
      | (Inr df, evs1) \<Rightarrow>
          (case time_sleep pause of
             (Inl ex, evs2) \<Rightarrow>
               batch_loop w pause urls (frames @ [df])
                 (evs @ evs1 @ evs2 @ [Print (warn_line url ex)])
           | (Inr u, evs2) \<Rightarrow>
               batch_loop w pause urls (frames @ [df]) (evs @ evs1 @ evs2)))"

definition get_multiple_players_injury_history ::
  "world \<Rightarrow> string list \<Rightarrow> real \<Rightarrow> (error + dataframe) \<times> event list" where
  "get_multiple_players_injury_history w player_urls pause =
     (case batch_loop w pause player_urls [] [] of
        (frames, evs) \<Rightarrow> (if frames \<noteq> [] then pd_concat frames else Inr empty_frame, evs))"

subsection \<open>The batch as the specification describes it\<close>



section \<open>An example site\<close>

text \<open>
  A small site to run the functions on: the league pages of Spain and of a league given
  by hand, a team page, and the history pages of players 1 and 3; every other URL fails.
\<close>

definition example_league_frame :: raw_frame where
  "example_league_frame = FlatFrame 2
     [(LStr ''Player/Position'',
         \<lparr>sdtype = Object, vals = [Str ''J. Doe\<newline>Midfielder'', Str ''A. Roe'']\<rparr>),
      (LStr ''Club'', \<lparr>sdtype = Object, vals = [Str '' FC One'', Str ''FC Two '']\<rparr>),
      (LStr ''Age'', \<lparr>sdtype = Numeric, vals = [Num 24, Num 31]\<rparr>),
      (LStr ''Injury'', \<lparr>sdtype = Object, vals = [Str ''Knee'', Str ''Ankle'']\<rparr>),
      (LStr ''until'', \<lparr>sdtype = Object, vals = [Str ''Jan 1'', Null]\<rparr>),
      (LStr ''Market Value'', \<lparr>sdtype = Object, vals = [Str ''1m'', Str ''2m'']\<rparr>)]"

definition example_plain_frame :: raw_frame where
  "example_plain_frame = FlatFrame 2
     [(LStr ''Player/Position'', \<lparr>sdtype = Object, vals = [Str ''A. Roe'', Str ''B. Poe'']\<rparr>),
      (LStr ''Club'', \<lparr>sdtype = Object, vals = [Str ''FC Two'', Str ''FC Six'']\<rparr>)]"

definition example_history_1 :: raw_frame where
  "example_history_1 = MultiFrame 2
     [([LStr ''From'', LStr []], \<lparr>sdtype = Object, vals = [Str ''Jan 1'', Str '' Mar 3 '']\<rparr>),
      ([LStr ''Details'', LStr ''Injury''],
         \<lparr>sdtype = Object, vals = [Str ''Knee'', Str ''Ankle'']\<rparr>),
      ([LStr ''Days'', LNone], \<lparr>sdtype = Numeric, vals = [Num 12, Num 40]\<rparr>)]"

definition example_history_3 :: raw_frame where
  "example_history_3 = FlatFrame 1
     [(LStr ''From'', \<lparr>sdtype = Object, vals = [Str ''May 5'']\<rparr>),
      (LStr ''Injury'', \<lparr>sdtype = Object, vals = [Str ''Flu'']\<rparr>),
      (LStr ''Days'', \<lparr>sdtype = Numeric, vals = [Num 7]\<rparr>),
      (LStr ''Matches missed'', \<lparr>sdtype = Numeric, vals = [Num 2]\<rparr>)]"

definition example_world :: world where
  "example_world = \<lparr>
     http_get = (\<lambda>url.
       if url = ''https://www.transfermarkt.us/laliga/verletztespieler/wettbewerb/ES1''
       then Inr ''league page''
       else if url = ''https://www.transfermarkt.us/liga-x/verletztespieler/wettbewerb/X1''
       then Inr ''plain page''
       else if url = ''https://tm.example/team/1'' then Inr ''team page''
       else if prefix ''https://tm.example/a/verletzungen/spieler/1'' url then Inr ''player 1''
       else if url = ''https://tm.example/c/verletzungen/spieler/3'' then Inr ''player 3''
       else Inl (Error RequestException ''504 Server Error'')),
     find_items_table = (\<lambda>text. if text = ''team page'' then None else Some text),
     read_html = (\<lambda>markup.
       if markup = ''league page'' then Inr example_league_frame
       else if markup = ''plain page'' then Inr example_plain_frame
       else if markup = ''player 1'' then Inr example_history_1
       else if markup = ''player 3'' then Inr example_history_3
       else Inl (Error ValueError ''No tables found'')),
     h1_strings = (\<lambda>text.
       if text = ''player 1'' then Some [''#7 '', '' J. Doe '']
       else if text = ''player 3'' then Some [''C. Moe'']
       else None),
     anchor_hrefs = (\<lambda>text.
       if text = ''team page''
       then [''/b/profil/spieler/123?x=1'', ''/about'', ''/b/profil/spieler/123'',
             ''/a/profil/spieler/45'']
       else []),
     urlparse_scheme = (\<lambda>url. takeWhile (\<lambda>c. c \<noteq> CHR '':'') url),
     urlparse_netloc = (\<lambda>url.
       takeWhile (\<lambda>c. c \<noteq> CHR ''/'') (drop 3 (dropWhile (\<lambda>c. c \<noteq> CHR '':'') url))),
     urljoin = (\<lambda>base href. base @ href)\<rparr>"


section \<open>Properties\<close>

subsection \<open>Flattening\<close>




subsection \<open>Renaming the league columns\<close>

lemma rename_label_league:
  "rename_label LEAGUE_RENAME l =
     (if l = LStr ''Club'' then LStr ''Team''
      else if l = LStr ''Injury'' then LStr ''Injury Type''
      else if l = LStr ''until'' then LStr ''Expected Return''
      else if l = LStr ''Market Value'' then LStr (''Market Value ('' @ euro @ '')'')
      else l)"
  by (simp add: rename_label_def LEAGUE_RENAME_def)






subsection \<open>Resolving the league\<close>

lemma resolve_unmapped:
  "name \<noteq> [] \<Longrightarrow> LEAGUE_MAP name = None
     \<Longrightarrow> resolve_league (Some name) s k = Inl (Error ValueError msg_unmapped)"
  by (simp add: resolve_league_def)

lemma resolve_absent:
  "truthy country = None \<Longrightarrow>
     resolve_league country s k =
       (case (truthy s, truthy k) of (Some s', Some k') \<Rightarrow> Inr (s', k')
                                   | _ \<Rightarrow> Inl (Error ValueError msg_missing))"
  by (simp add: resolve_league_def)

lemma league_map_atlantis: "LEAGUE_MAP ''Atlantis'' = None"
  by (simp add: LEAGUE_MAP_def)

text \<open>
  Claim C2, as the code has it. A non-empty \<open>country_name\<close> that is not in the map
  makes \<open>get_league_injuries\<close> raise the \<open>ValueError\<close> of an unmapped country with no
  request made. A \<open>country_name\<close> that is \<open>None\<close> or empty counts as absent: then a
  \<open>league_slug\<close> or \<open>league_code\<close> that is \<open>None\<close> or empty raises the
  \<open>ValueError\<close> of a missing slug or code with no request made, and a call that makes
  a request has both, non-empty, and requests the URL built from them.
\<close>

theorem league_config_errors:
  "(name \<noteq> [] \<and> LEAGUE_MAP name = None \<longrightarrow>
      get_league_injuries w (Some name) s k = (Inl (Error ValueError msg_unmapped), []))
   \<and> (truthy country = None \<and> (truthy s = None \<or> truthy k = None) \<longrightarrow>
      get_league_injuries w country s k = (Inl (Error ValueError msg_missing), []))
   \<and> (truthy country = None \<and> snd (get_league_injuries w country s k) \<noteq> [] \<longrightarrow>
      (\<exists>s' k'. s = Some s' \<and> s' \<noteq> [] \<and> k = Some k' \<and> k' \<noteq> []
         \<and> snd (get_league_injuries w country s k) = [HttpGet (league_url s' k')]))"
proof (intro conjI impI)
  assume "name \<noteq> [] \<and> LEAGUE_MAP name = None"
  then show "get_league_injuries w (Some name) s k = (Inl (Error ValueError msg_unmapped), [])"
    by (simp add: get_league_injuries_def resolve_unmapped)
next
  assume "truthy country = None \<and> (truthy s = None \<or> truthy k = None)"
  then show "get_league_injuries w country s k = (Inl (Error ValueError msg_missing), [])"
    by (auto simp: get_league_injuries_def resolve_absent split: option.splits)
next
  assume h: "truthy country = None \<and> snd (get_league_injuries w country s k) \<noteq> []"
  then obtain s' k' where sk: "truthy s = Some s'" "truthy k = Some k'"
    by (cases "truthy s"; cases "truthy k")
       (auto simp: get_league_injuries_def resolve_absent)
  then have "s = Some s' \<and> s' \<noteq> [] \<and> k = Some k' \<and> k' \<noteq> []"
    by (cases s; cases k) (auto split: if_splits)
  moreover have "snd (get_league_injuries w country s k) = [HttpGet (league_url s' k')]"
    using h sk by (simp add: get_league_injuries_def resolve_absent split: sum.splits)
  ultimately show "\<exists>s' k'. s = Some s' \<and> s' \<noteq> [] \<and> k = Some k' \<and> k' \<noteq> []
         \<and> snd (get_league_injuries w country s k) = [HttpGet (league_url s' k')]"
    by blast
qed

theorem league_config_errors_witness:
  "get_league_injuries example_world (Some ''Atlantis'') (Some ''laliga'') (Some ''ES1'')
     = (Inl (Error ValueError msg_unmapped), [])
   \<and> get_league_injuries example_world None (Some ''laliga'') None
     = (Inl (Error ValueError msg_missing), [])
   \<and> snd (get_league_injuries example_world None (Some ''laliga'') (Some ''ES1''))
     = [HttpGet ''https://www.transfermarkt.us/laliga/verletztespieler/wettbewerb/ES1'']"
  using league_config_errors [of "''Atlantis''" example_world "Some ''laliga''" "Some ''ES1''" None]
        league_config_errors [of "''Atlantis''" example_world "Some ''laliga''" None None]
        league_map_atlantis
  by (simp add: get_league_injuries_def resolve_league_def league_url_def BASE_URL_def
                example_world_def)

text \<open>
  The claim as the specification words it fails for the empty string: it is a
  \<open>country_name\<close> that is not in the map, and with a slug and a code given the request
  is made.
\<close>

theorem empty_country_counterexample:
  "LEAGUE_MAP [] = None
   \<and> snd (get_league_injuries example_world (Some []) (Some ''laliga'') (Some ''ES1''))
       = [HttpGet ''https://www.transfermarkt.us/laliga/verletztespieler/wettbewerb/ES1'']"
  by (simp add: LEAGUE_MAP_def get_league_injuries_def resolve_league_def league_url_def
                BASE_URL_def example_world_def)

subsection \<open>A batch without a success\<close>

lemma batch_loop_all_fail:
  "\<forall>url\<in>set urls. \<exists>ex. fst (get_player_injury_history w url) = Inl ex
     \<Longrightarrow> fst (batch_loop w pause urls frames evs) = frames"
proof (induction urls arbitrary: evs)
  case Nil
  then show ?case by simp
next
  case (Cons url urls)
  from Cons.prems obtain ex where "fst (get_player_injury_history w url) = Inl ex"
    by auto
  then obtain evs1 where "get_player_injury_history w url = (Inl ex, evs1)"
    by (cases "get_player_injury_history w url") auto
  then show ?case using Cons by simp
qed

text \<open>
  Claim C9. When the extraction fails for every URL of the list, the empty list
  included, \<open>get_multiple_players_injury_history\<close> returns the empty frame
  \<open>pd.DataFrame()\<close>: a value, not an exception.
\<close>

theorem batch_zero_successes_empty_table:
  assumes "\<forall>url\<in>set player_urls. \<exists>ex. fst (get_player_injury_history w url) = Inl ex"
  shows "fst (get_multiple_players_injury_history w player_urls pause) = Inr empty_frame"
proof -
  obtain frames evs where b: "batch_loop w pause player_urls [] [] = (frames, evs)"
    by (cases "batch_loop w pause player_urls [] []") auto
  have "frames = []"
    using batch_loop_all_fail [OF assms, of pause "[]" "[]"] b by simp
  then show ?thesis
    using b by (simp add: get_multiple_players_injury_history_def)
qed

lemma example_failures:
  "fst (get_player_injury_history example_world ''https://tm.example/b/profil/spieler/2'')
     = Inl (Error RequestException ''504 Server Error'')"
  "fst (get_player_injury_history example_world ''https://tm.example/team/1'')
     = Inl (Error RuntimeError msg_no_history)"
  by (simp_all add: get_player_injury_history_def injury_url_def re_sub_def rstrip_slash_def
        example_world_def history_table_def)

theorem batch_zero_successes_empty_table_witness:
  "fst (get_multiple_players_injury_history example_world
          [''https://tm.example/b/profil/spieler/2'', ''https://tm.example/team/1''] 1)
     = Inr \<lparr>nrows = 0, cols = []\<rparr>
   \<and> fst (get_multiple_players_injury_history example_world [] 1) = Inr \<lparr>nrows = 0, cols = []\<rparr>"
proof -
  have h: "\<forall>url\<in>set [''https://tm.example/b/profil/spieler/2'', ''https://tm.example/team/1''].
             \<exists>ex. fst (get_player_injury_history example_world url) = Inl ex"
    using example_failures by simp
  have h0: "\<forall>url\<in>set []. \<exists>ex. fst (get_player_injury_history example_world url) = Inl ex"
    by simp
  show ?thesis
    using batch_zero_successes_empty_table [OF h, of 1]
          batch_zero_successes_empty_table [OF h0, of 1]
    by (simp add: empty_frame_def)
qed

subsection \<open>The URL of the history page\<close>

lemma re_sub_scan_skip:
  "length xs = k \<Longrightarrow> re_sub_scan pat rep k (xs @ s) = re_sub_scan pat rep 0 s"
  by (induction xs arbitrary: k) auto

lemma re_sub_scan_match:
  assumes "pat \<noteq> []"
  shows "re_sub_scan pat rep 0 (pat @ s) = rep @ re_sub_scan pat rep 0 s"
proof -
  obtain c p where p: "pat = c # p" using assms by (cases pat) auto
  have "re_sub_scan pat rep 0 (c # (p @ s)) = rep @ re_sub_scan pat rep (length pat - 1) (p @ s)"
    by (simp add: p)
  also have "re_sub_scan pat rep (length pat - 1) (p @ s) = re_sub_scan pat rep 0 s"
    by (rule re_sub_scan_skip) (simp add: p)
  finally show ?thesis by (simp add: p)
qed

lemma re_sub_scan_absent:
  "\<not> contains pat s \<Longrightarrow> re_sub_scan pat rep 0 s = s"
  by (induction s) auto

lemma prefix_of_longer:
  assumes "prefix p (a @ b)" and "length p \<le> length a"
  shows "prefix p a"
proof -
  have "prefix a (a @ b)" by simp
  with assms show ?thesis using prefix_length_prefix by blast
qed


lemma re_sub_scan_first:
  assumes "pat \<noteq> []"
  shows "\<not> contains pat (pre @ butlast pat)
     \<Longrightarrow> re_sub_scan pat rep 0 (pre @ pat @ s) = pre @ rep @ re_sub_scan pat rep 0 s"
proof (induction pre)
  case Nil
  then show ?case using assms by (simp add: re_sub_scan_match)
next
  case (Cons c pre)
  have np: "\<not> prefix pat (c # pre @ butlast pat)" and nc: "\<not> contains pat (pre @ butlast pat)"
    using Cons.prems by auto
  have "\<not> prefix pat (c # pre @ pat @ s)"
  proof
    assume a: "prefix pat (c # pre @ pat @ s)"
    have "butlast pat @ [last pat] = pat"
      using assms by simp
    then have "pat @ s = butlast pat @ (last pat # s)"
      by (metis append.assoc append_Cons append_Nil)
    then have e: "c # pre @ pat @ s = (c # pre @ butlast pat) @ (last pat # s)"
      by simp
    have l: "length pat \<le> length (c # pre @ butlast pat)"
      by simp
    have "prefix pat (c # pre @ butlast pat)"
      using a l prefix_of_longer [of pat "c # pre @ butlast pat" "last pat # s"]
      unfolding e by blast
    with np show False by simp
  qed
  then show ?case using Cons.IH [OF nc] by simp
qed


lemma rstrip_slash_decomp:
  "\<exists>n. s = rstrip_slash s @ replicate n (CHR ''/'')"
proof -
  let ?t = "takeWhile (\<lambda>c. c = CHR ''/'') (rev s)"
  let ?d = "dropWhile (\<lambda>c. c = CHR ''/'') (rev s)"
  have "\<forall>c\<in>set ?t. c = CHR ''/''"
    by (auto dest: set_takeWhileD)
  then have t: "replicate (length ?t) (CHR ''/'') = ?t"
    by (rule replicate_length_same)
  have "rev (?t @ ?d) = s" by simp
  then have "rev ?d @ rev ?t = s" by (simp only: rev_append)
  then have "rev ?d @ replicate (length ?t) (CHR ''/'') = s"
    using t by (metis rev_replicate)
  then show ?thesis unfolding rstrip_slash_def by metis
qed

lemma rstrip_slash_last:
  assumes "rstrip_slash s \<noteq> []"
  shows "last (rstrip_slash s) \<noteq> CHR ''/''"
proof -
  let ?d = "dropWhile (\<lambda>c. c = CHR ''/'') (rev s)"
  have d: "?d \<noteq> []" using assms by (simp add: rstrip_slash_def)
  then have "hd ?d \<noteq> CHR ''/''" by (rule hd_dropWhile)
  moreover have "last (rev ?d) = hd ?d" using d by (simp add: last_rev)
  ultimately show ?thesis by (simp add: rstrip_slash_def)
qed


text \<open>
  Claim C8. The only request \<open>get_player_injury_history\<close> makes, whatever comes of
  it, is for the URL derived from its argument: the argument without its trailing
  slashes, with \<open>/profil/\<close> replaced by \<open>/verletzungen/\<close>. The trimmed URL has
  no trailing slash and differs from the argument by trailing slashes only; where
  \<open>/profil/\<close> first occurs in it after \<open>pre\<close>, the derived URL is \<open>pre\<close>,
  \<open>/verletzungen/\<close> and the rest rewritten in the same way; without an occurrence
  the trimmed URL is requested as it is.
\<close>

theorem history_url_derived_and_fetched:
  "snd (get_player_injury_history w player_url) = [HttpGet (injury_url player_url)]
   \<and> injury_url player_url = re_sub ''/profil/'' ''/verletzungen/'' (rstrip_slash player_url)
   \<and> (\<exists>n. player_url = rstrip_slash player_url @ replicate n (CHR ''/''))
   \<and> (rstrip_slash player_url \<noteq> [] \<longrightarrow> last (rstrip_slash player_url) \<noteq> CHR ''/'')
   \<and> (rstrip_slash player_url = pre @ ''/profil/'' @ suf
          \<and> \<not> contains ''/profil/'' (pre @ ''/profil'')
        \<longrightarrow> injury_url player_url
              = pre @ ''/verletzungen/'' @ re_sub ''/profil/'' ''/verletzungen/'' suf)
   \<and> (\<not> contains ''/profil/'' (rstrip_slash player_url)
        \<longrightarrow> injury_url player_url = rstrip_slash player_url)"
proof (intro conjI impI)
  show "snd (get_player_injury_history w player_url) = [HttpGet (injury_url player_url)]"
    by (simp add: get_player_injury_history_def split: sum.splits)
  show "injury_url player_url = re_sub ''/profil/'' ''/verletzungen/'' (rstrip_slash player_url)"
    by (simp add: injury_url_def)
  show "\<exists>n. player_url = rstrip_slash player_url @ replicate n (CHR ''/'')"
    by (rule rstrip_slash_decomp)
  show "last (rstrip_slash player_url) \<noteq> CHR ''/''" if "rstrip_slash player_url \<noteq> []"
    using that by (rule rstrip_slash_last)
  show "injury_url player_url = pre @ ''/verletzungen/'' @ re_sub ''/profil/'' ''/verletzungen/'' suf"
    if h: "rstrip_slash player_url = pre @ ''/profil/'' @ suf
          \<and> \<not> contains ''/profil/'' (pre @ ''/profil'')"
  proof -
    have b: "butlast ''/profil/'' = ''/profil''" by simp
    have "\<not> contains ''/profil/'' (pre @ butlast ''/profil/'')"
      using h unfolding b by blast
    then have "re_sub_scan ''/profil/'' ''/verletzungen/'' 0 (pre @ ''/profil/'' @ suf)
                 = pre @ ''/verletzungen/'' @ re_sub_scan ''/profil/'' ''/verletzungen/'' 0 suf"
      by (rule re_sub_scan_first [rotated]) simp
    then show ?thesis
      using h by (simp only: injury_url_def re_sub_def)
  qed
  show "injury_url player_url = rstrip_slash player_url"
    if "\<not> contains ''/profil/'' (rstrip_slash player_url)"
    using re_sub_scan_absent [OF that] by (simp only: injury_url_def re_sub_def)
qed

theorem history_url_derived_and_fetched_witness:
  "snd (get_player_injury_history example_world ''https://tm.example/c/profil/spieler/3//'')
     = [HttpGet ''https://tm.example/c/verletzungen/spieler/3'']
   \<and> injury_url ''https://tm.example/c/profil/spieler/3//''
       = ''https://tm.example/c/verletzungen/spieler/3''
   \<and> rstrip_slash ''https://tm.example/c/profil/spieler/3//'' = ''https://tm.example/c/profil/spieler/3''"
proof -
  have r: "rstrip_slash ''https://tm.example/c/profil/spieler/3//''
             = ''https://tm.example/c'' @ ''/profil/'' @ ''spieler/3''"
    by (simp add: rstrip_slash_def)
  have n: "\<not> contains ''/profil/'' (''https://tm.example/c'' @ ''/profil'')"
    by simp
  have s: "re_sub ''/profil/'' ''/verletzungen/'' ''spieler/3'' = ''spieler/3''"
    by (simp add: re_sub_def)
  note t = history_url_derived_and_fetched
             [of example_world "''https://tm.example/c/profil/spieler/3//''"
                 "''https://tm.example/c''" "''spieler/3''"]
  from t have a: "snd (get_player_injury_history example_world
                         ''https://tm.example/c/profil/spieler/3//'')
                    = [HttpGet (injury_url ''https://tm.example/c/profil/spieler/3//'')]"
    by (rule conjunct1)
  from t r n have b: "injury_url ''https://tm.example/c/profil/spieler/3//''
                        = ''https://tm.example/c'' @ ''/verletzungen/''
                            @ re_sub ''/profil/'' ''/verletzungen/'' ''spieler/3''"
    by blast
  show ?thesis
    unfolding a b s r by simp
qed

subsection \<open>The player links of a team page\<close>










subsection \<open>Separating player and position\<close>

lemma split_once_at_first:
  "sep \<notin> set a \<Longrightarrow> split_once sep (a @ sep # b) = [a, b]"
  by (induction a) auto

lemma split_once_none:
  "sep \<notin> set v \<Longrightarrow> split_once sep v = [v]"
  by simp

lemma length_split_parts:
  "length (split_parts c) = (if (\<exists>s. c = Str s \<and> newline \<in> set s) then 2 else 1)"
  by (cases c) auto

lemma fold_max_widths:
  "\<forall>x\<in>set xs. x = 1 \<or> x = 2 \<Longrightarrow> a \<le> 2 \<Longrightarrow>
     fold max xs (a::nat) = (if 2 \<in> set xs then 2 else if xs = [] then a else max a 1)"
proof (induction xs arbitrary: a)
  case Nil
  then show ?case by simp
next
  case (Cons x xs)
  have x: "x = 1 \<or> x = 2" using Cons.prems by simp
  have "fold max (x # xs) a = fold max xs (max x a)" by simp
  also have "\<dots> = (if 2 \<in> set xs then 2 else if xs = [] then max x a else max (max x a) 1)"
    using Cons.prems x by (intro Cons.IH) auto
  finally have f: "fold max (x # xs) a
      = (if 2 \<in> set xs then 2 else if xs = [] then max x a else max (max x a) 1)" .
  show ?case
  proof (cases "x = 2")
    case True
    have "max 2 a = 2" "max (max 2 a) 1 = 2" using Cons.prems(2) by simp_all
    with f show ?thesis unfolding True by (simp del: fold_simps)
  next
    case False
    then have x1: "x = 1" using x by simp
    have "max 1 a = max a 1" "max (max 1 a) 1 = max a 1" by simp_all
    with f show ?thesis unfolding x1 by (simp del: fold_simps)
  qed
qed

lemma split_width:
  "fold max (map length (map split_parts vs)) 0
     = (if \<exists>c\<in>set vs. \<exists>s. c = Str s \<and> newline \<in> set s then 2 else if vs = [] then 0 else 1)"
proof -
  have "\<forall>x\<in>set (map length (map split_parts vs)). x = 1 \<or> x = 2"
    by (auto simp: length_split_parts)
  then have "fold max (map length (map split_parts vs)) 0
               = (if 2 \<in> set (map length (map split_parts vs)) then 2
                  else if map length (map split_parts vs) = [] then 0 else max 0 1)"
    by (rule fold_max_widths) simp
  moreover have "2 \<in> set (map length (map split_parts vs))
                   \<longleftrightarrow> (\<exists>c\<in>set vs. \<exists>s. c = Str s \<and> newline \<in> set s)"
    by (auto simp: length_split_parts image_iff split: if_splits)
  ultimately show ?thesis by simp
qed


lemma nrows_split_expand: "nrows (str_split_expand vs) = length vs"
  by (simp add: str_split_expand_def Let_def)

lemma split_parts_nonempty: "split_parts c \<noteq> []"
  by (cases c) auto

lemma split_expand_cols:
  "cols (str_split_expand vs) =
     (if vs = [] then []
      else (LInt 0, \<lparr>sdtype = Object, vals = map (\<lambda>c. split_parts c ! 0) vs\<rparr>)
           # (if \<exists>c\<in>set vs. \<exists>s. c = Str s \<and> newline \<in> set s
              then [(LInt 1, \<lparr>sdtype = Object,
                             vals = map (\<lambda>c. if 1 < length (split_parts c)
                                              then split_parts c ! 1 else Null) vs\<rparr>)]
              else []))"
proof -
  have u1: "[0..<1] = [0::nat]" by simp
  have u2: "[0..<2] = [0::nat, 1]" by (simp add: upt_rec)
  have c: "cols (str_split_expand vs) =
          map (\<lambda>j. (LInt (int j),
                     \<lparr>sdtype = Object,
                      vals = map (\<lambda>c. if j < length (split_parts c) then split_parts c ! j else Null) vs\<rparr>))
              [0..<fold max (map length (map split_parts vs)) 0]"
    by (simp add: str_split_expand_def Let_def comp_def)
  show ?thesis
    unfolding c split_width
    by (auto simp: u1 u2 split_parts_nonempty)
qed


lemma no_newline_second_part:
  assumes "\<not> (\<exists>c\<in>set vs. \<exists>s. c = Str s \<and> newline \<in> set s)"
  shows "map (\<lambda>c. if 1 < length (split_parts c) then split_parts c ! 1 else Null) vs
           = replicate (length vs) Null"
proof -
  have "\<forall>c\<in>set vs. length (split_parts c) = 1"
    using assms by (auto simp: length_split_parts)
  then have "map (\<lambda>c. if 1 < length (split_parts c) then split_parts c ! 1 else Null) vs
               = map (\<lambda>c. Null) vs"
    by (intro map_cong) auto
  then show ?thesis by (simp add: map_replicate_const)
qed

lemma split_player_position_cols:
  assumes "getitem_str df ''Player/Position'' = Inr vs"
  shows "split_player_position df =
     Inr (df\<lparr>cols := filter (\<lambda>(l, s). l \<noteq> LStr ''Player/Position'') (cols df)
            @ (if vs = [] then []
               else [(LStr ''Player'',
                      \<lparr>sdtype = Object, vals = map (\<lambda>c. split_parts c ! 0) vs\<rparr>)])
            @ [(LStr ''Position'',
                \<lparr>sdtype = Object,
                 vals = map (\<lambda>c. if 1 < length (split_parts c)
                                  then split_parts c ! 1 else Null) vs\<rparr>)]\<rparr>)"
proof -
  let ?m = "[LInt 0 \<mapsto> LStr ''Player'', LInt 1 \<mapsto> LStr ''Position'']"
  let ?sc = "rename_columns ?m (str_split_expand vs)"
  let ?p0 = "\<lparr>sdtype = Object, vals = map (\<lambda>c. split_parts c ! 0) vs\<rparr>"
  let ?p1 = "\<lparr>sdtype = Object,
              vals = map (\<lambda>c. if 1 < length (split_parts c) then split_parts c ! 1 else Null) vs\<rparr>"
  have r0: "rename_label ?m (LInt 0) = LStr ''Player''"
   and r1: "rename_label ?m (LInt 1) = LStr ''Position''"
    by (simp_all add: rename_label_def)
  have n: "nrows ?sc = length vs"
    by (simp add: rename_columns_def nrows_split_expand)
  have c: "cols ?sc =
       (if vs = [] then []
        else (LStr ''Player'', ?p0)
             # (if \<exists>c\<in>set vs. \<exists>s. c = Str s \<and> newline \<in> set s
                then [(LStr ''Position'', ?p1)] else []))"
    by (simp add: rename_columns_def split_expand_cols r0 r1)
  let ?sc' = "if LStr ''Position'' \<notin> set (labels ?sc)
              then setitem_scalar ?sc (LStr ''Position'') Null else ?sc"
  have c': "cols ?sc' = (if vs = [] then [] else [(LStr ''Player'', ?p0)]) @ [(LStr ''Position'', ?p1)]"
  proof (cases "\<exists>c\<in>set vs. \<exists>s. c = Str s \<and> newline \<in> set s")
    case True
    then have "vs \<noteq> []" by auto
    then show ?thesis using True by (simp add: labels_def c)
  next
    case False
    have cf: "cols ?sc = (if vs = [] then [] else [(LStr ''Player'', ?p0)])"
      using False unfolding c by auto
    have l: "LStr ''Position'' \<notin> set (labels ?sc)"
      by (simp add: labels_def cf)
    have "cols (setitem_scalar ?sc (LStr ''Position'') Null)
            = cols ?sc @ [(LStr ''Position'', \<lparr>sdtype = Object, vals = replicate (length vs) Null\<rparr>)]"
      using l by (simp add: setitem_scalar_def Let_def n)
    then show ?thesis
      using l no_newline_second_part [OF False] by (simp add: cf)
  qed
  have "split_player_position df
          = Inr (concat_columns (drop_columns df (LStr ''Player/Position'')) ?sc')"
    using assms by (simp add: split_player_position_def Let_def)
  then show ?thesis
    by (simp add: concat_columns_def drop_columns_def c')
qed


lemma split_parts_two:
  "newline \<notin> set a \<Longrightarrow> split_parts (Str (a @ newline # b)) = [Str a, Str b]"
  using split_once_at_first [of newline a b] by simp

lemma split_parts_one:
  "newline \<notin> set v \<Longrightarrow> split_parts (Str v) = [Str v]"
  by simp

lemma split_parts_other:
  "\<not> is_Str c \<Longrightarrow> split_parts c = [Null]"
  by (cases c) auto

text \<open>
  Claim C3. Where \<open>Player/Position\<close> is a single column of strings, the block that
  separates player and position raises nothing and replaces that column by a
  \<open>Player\<close> column (when there is a row) and a \<open>Position\<close> column at the end of
  the frame. Row by row: a string is cut at its first newline only, \<open>Player\<close> being
  the text before it and \<open>Position\<close> all the text after it; a string without a
  newline is \<open>Player\<close> as it is, with a null \<open>Position\<close>; a value that is not a
  string gives two nulls. (The last statement of \<open>get_league_injuries\<close> then strips
  the cells of every text column, these two included.)
\<close>

theorem player_position_split_first_newline:
  assumes "getitem_str df ''Player/Position'' = Inr vs"
  shows "\<exists>player position.
           split_player_position df =
             Inr (df\<lparr>cols := filter (\<lambda>(l, s). l \<noteq> LStr ''Player/Position'') (cols df)
                    @ (if vs = [] then []
                       else [(LStr ''Player'', \<lparr>sdtype = Object, vals = player\<rparr>)])
                    @ [(LStr ''Position'', \<lparr>sdtype = Object, vals = position\<rparr>)]\<rparr>)
           \<and> length player = length vs \<and> length position = length vs
           \<and> (\<forall>i<length vs.
                 (\<forall>a b. vs ! i = Str (a @ newline # b) \<and> newline \<notin> set a
                    \<longrightarrow> player ! i = Str a \<and> position ! i = Str b)
               \<and> (\<forall>v. vs ! i = Str v \<and> newline \<notin> set v
                    \<longrightarrow> player ! i = Str v \<and> position ! i = Null)
               \<and> (\<not> is_Str (vs ! i) \<longrightarrow> player ! i = Null \<and> position ! i = Null))"
proof -
  let ?player = "map (\<lambda>c. split_parts c ! 0) vs"
  let ?position = "map (\<lambda>c. if 1 < length (split_parts c) then split_parts c ! 1 else Null) vs"
  have rows: "(\<forall>a b. vs ! i = Str (a @ newline # b) \<and> newline \<notin> set a
                    \<longrightarrow> ?player ! i = Str a \<and> ?position ! i = Str b)
               \<and> (\<forall>v. vs ! i = Str v \<and> newline \<notin> set v
                    \<longrightarrow> ?player ! i = Str v \<and> ?position ! i = Null)
               \<and> (\<not> is_Str (vs ! i) \<longrightarrow> ?player ! i = Null \<and> ?position ! i = Null)"
    if i: "i < length vs" for i
  proof (intro conjI allI impI)
    fix a b assume "vs ! i = Str (a @ newline # b) \<and> newline \<notin> set a"
    then have "split_parts (vs ! i) = [Str a, Str b]" using split_parts_two [of a b] by metis
    then show "?player ! i = Str a" "?position ! i = Str b" using i by simp_all
  next
    fix v assume "vs ! i = Str v \<and> newline \<notin> set v"
    then have "split_parts (vs ! i) = [Str v]" using split_parts_one [of v] by metis
    then show "?player ! i = Str v" "?position ! i = Null" using i by simp_all
  next
    assume "\<not> is_Str (vs ! i)"
    then have "split_parts (vs ! i) = [Null]" by (rule split_parts_other)
    then show "?player ! i = Null" "?position ! i = Null" using i by simp_all
  qed
  have "split_player_position df =
             Inr (df\<lparr>cols := filter (\<lambda>(l, s). l \<noteq> LStr ''Player/Position'') (cols df)
                    @ (if vs = [] then []
                       else [(LStr ''Player'', \<lparr>sdtype = Object, vals = ?player\<rparr>)])
                    @ [(LStr ''Position'', \<lparr>sdtype = Object, vals = ?position\<rparr>)]\<rparr>)
           \<and> length ?player = length vs \<and> length ?position = length vs
           \<and> (\<forall>i<length vs.
                 (\<forall>a b. vs ! i = Str (a @ newline # b) \<and> newline \<notin> set a
                    \<longrightarrow> ?player ! i = Str a \<and> ?position ! i = Str b)
               \<and> (\<forall>v. vs ! i = Str v \<and> newline \<notin> set v
                    \<longrightarrow> ?player ! i = Str v \<and> ?position ! i = Null)
               \<and> (\<not> is_Str (vs ! i) \<longrightarrow> ?player ! i = Null \<and> ?position ! i = Null))"
    using split_player_position_cols [OF assms] rows by simp
  then show ?thesis by blast
qed


lemma two_element_list:
  "length xs = 2 \<Longrightarrow> xs ! 0 = a \<Longrightarrow> xs ! 1 = b \<Longrightarrow> xs = [a, b]"
  by (cases xs; cases "tl xs") auto

lemma example_league_result:
  "fst (get_league_injuries example_world (Some ''Spain'') None None) =
     Inr \<lparr>nrows = 2,
          cols = [(LStr ''Team'', \<lparr>sdtype = Object, vals = [Str ''FC One'', Str ''FC Two'']\<rparr>),
                  (LStr ''Age'', \<lparr>sdtype = Numeric, vals = [Num 24, Num 31]\<rparr>),
                  (LStr ''Injury Type'', \<lparr>sdtype = Object, vals = [Str ''Knee'', Str ''Ankle'']\<rparr>),
                  (LStr ''Expected Return'', \<lparr>sdtype = Object, vals = [Str ''Jan 1'', Null]\<rparr>),
                  (LStr (''Market Value ('' @ euro @ '')''),
                     \<lparr>sdtype = Object, vals = [Str ''1m'', Str ''2m'']\<rparr>),
                  (LStr ''Player'', \<lparr>sdtype = Object, vals = [Str ''J. Doe'', Str ''A. Roe'']\<rparr>),
                  (LStr ''Position'', \<lparr>sdtype = Object, vals = [Str ''Midfielder'', Null]\<rparr>)]\<rparr>"
  by (simp add: get_league_injuries_def resolve_league_def LEAGUE_MAP_def league_url_def
        BASE_URL_def example_world_def league_table_def example_league_frame_def set_columns_def
        split_player_position_def getitem_str_def str_accessor_def str_split_expand_def
        newline_def rename_columns_def rename_label_def labels_def setitem_scalar_def
        concat_columns_def drop_columns_def LEAGUE_RENAME_def apply_strip_def strip_column_def
        py_strip_def py_lstrip_def py_rstrip_def py_isspace_def euro_def upt_rec)


theorem player_position_split_first_newline_witness:
  "split_player_position
     (set_columns example_league_frame
        [LStr ''Player/Position'', LStr ''Club'', LStr ''Age'', LStr ''Injury'', LStr ''until'',
         LStr ''Market Value''])
     = Inr \<lparr>nrows = 2,
            cols = [(LStr ''Club'', \<lparr>sdtype = Object, vals = [Str '' FC One'', Str ''FC Two '']\<rparr>),
                    (LStr ''Age'', \<lparr>sdtype = Numeric, vals = [Num 24, Num 31]\<rparr>),
                    (LStr ''Injury'', \<lparr>sdtype = Object, vals = [Str ''Knee'', Str ''Ankle'']\<rparr>),
                    (LStr ''until'', \<lparr>sdtype = Object, vals = [Str ''Jan 1'', Null]\<rparr>),
                    (LStr ''Market Value'', \<lparr>sdtype = Object, vals = [Str ''1m'', Str ''2m'']\<rparr>),
                    (LStr ''Player'', \<lparr>sdtype = Object, vals = [Str ''J. Doe'', Str ''A. Roe'']\<rparr>),
                    (LStr ''Position'', \<lparr>sdtype = Object, vals = [Str ''Midfielder'', Null]\<rparr>)]\<rparr>
   \<and> fst (get_league_injuries example_world (Some ''Spain'') None None) =
     Inr \<lparr>nrows = 2,
          cols = [(LStr ''Team'', \<lparr>sdtype = Object, vals = [Str ''FC One'', Str ''FC Two'']\<rparr>),
                  (LStr ''Age'', \<lparr>sdtype = Numeric, vals = [Num 24, Num 31]\<rparr>),
                  (LStr ''Injury Type'', \<lparr>sdtype = Object, vals = [Str ''Knee'', Str ''Ankle'']\<rparr>),
                  (LStr ''Expected Return'', \<lparr>sdtype = Object, vals = [Str ''Jan 1'', Null]\<rparr>),
                  (LStr (''Market Value ('' @ euro @ '')''),
                     \<lparr>sdtype = Object, vals = [Str ''1m'', Str ''2m'']\<rparr>),
                  (LStr ''Player'', \<lparr>sdtype = Object, vals = [Str ''J. Doe'', Str ''A. Roe'']\<rparr>),
                  (LStr ''Position'', \<lparr>sdtype = Object, vals = [Str ''Midfielder'', Null]\<rparr>)]\<rparr>"
proof -
  let ?df = "set_columns example_league_frame
        [LStr ''Player/Position'', LStr ''Club'', LStr ''Age'', LStr ''Injury'', LStr ''until'',
         LStr ''Market Value'']"
  let ?vs = "[Str ''J. Doe\<newline>Midfielder'', Str ''A. Roe'']"
  have g: "getitem_str ?df ''Player/Position'' = Inr ?vs"
    by (simp add: getitem_str_def set_columns_def example_league_frame_def str_accessor_def)
  from player_position_split_first_newline [OF g]
  obtain player position where
    sp: "split_player_position ?df =
             Inr (?df\<lparr>cols := filter (\<lambda>(l, s). l \<noteq> LStr ''Player/Position'') (cols ?df)
                    @ (if ?vs = [] then []
                       else [(LStr ''Player'', \<lparr>sdtype = Object, vals = player\<rparr>)])
                    @ [(LStr ''Position'', \<lparr>sdtype = Object, vals = position\<rparr>)]\<rparr>)"
    and lp: "length player = length ?vs" and lq: "length position = length ?vs"
    and rows: "\<forall>i<length ?vs.
                 (\<forall>a b. ?vs ! i = Str (a @ newline # b) \<and> newline \<notin> set a
                    \<longrightarrow> player ! i = Str a \<and> position ! i = Str b)
               \<and> (\<forall>v. ?vs ! i = Str v \<and> newline \<notin> set v
                    \<longrightarrow> player ! i = Str v \<and> position ! i = Null)
               \<and> (\<not> is_Str (?vs ! i) \<longrightarrow> player ! i = Null \<and> position ! i = Null)"
    by blast
  have "?vs ! 0 = Str (''J. Doe'' @ newline # ''Midfielder'') \<and> newline \<notin> set ''J. Doe''"
    by (simp add: newline_def)
  with rows have r0: "player ! 0 = Str ''J. Doe'' \<and> position ! 0 = Str ''Midfielder''"
    by (metis length_greater_0_conv list.distinct(1))
  have "?vs ! 1 = Str ''A. Roe'' \<and> newline \<notin> set ''A. Roe''"
    by (simp add: newline_def)
  moreover have "1 < length ?vs" by simp
  ultimately have r1: "player ! 1 = Str ''A. Roe'' \<and> position ! 1 = Null"
    using rows by blast
  have p: "player = [Str ''J. Doe'', Str ''A. Roe'']"
    using lp r0 r1 by (intro two_element_list) simp_all
  have q: "position = [Str ''Midfielder'', Null]"
    using lq r0 r1 by (intro two_element_list) simp_all
  show ?thesis
    unfolding sp p q
    by (simp add: example_league_result set_columns_def example_league_frame_def)
qed

subsection \<open>The position column of the result\<close>

lemma strip_columns_append:
  "strip_columns (as @ bs) =
     (case strip_columns as of
        Inl e \<Rightarrow> Inl e
      | Inr as' \<Rightarrow> (case strip_columns bs of Inl e \<Rightarrow> Inl e | Inr bs' \<Rightarrow> Inr (as' @ bs')))"
  by (induction as) (auto split: sum.splits)


lemma strip_column_text:
  assumes "\<forall>c\<in>set vs. is_Str c \<or> c = Null"
  shows "strip_column \<lparr>sdtype = Object, vals = vs\<rparr>
           = Inr \<lparr>sdtype = Object, vals = map strip_cell vs\<rparr>"
proof -
  have "list_ex is_Str vs \<or> list_all (\<lambda>c. c = Null) vs"
    using assms by (auto simp: list_ex_iff list_all_iff)
  then show ?thesis
    by (simp add: strip_column_def str_accessor_def)
qed

lemma split_parts_cells:
  "c' \<in> set (split_parts c) \<Longrightarrow> is_Str c' \<or> c' = Null"
  by (cases c) (auto split: if_splits)

lemma second_part_text:
  "\<forall>c\<in>set (map (\<lambda>c. if 1 < length (split_parts c) then split_parts c ! 1 else Null) vs).
     is_Str c \<or> c = Null"
proof -
  have "(if 1 < length (split_parts c) then split_parts c ! 1 else Null) = Null
        \<or> is_Str (if 1 < length (split_parts c) then split_parts c ! 1 else Null)" for c
    using split_parts_cells [of "split_parts c ! 1" c] by (auto simp: nth_mem)
  then show ?thesis unfolding set_map by blast
qed

lemma first_part_text:
  "\<forall>c\<in>set (map (\<lambda>c. split_parts c ! 0) vs). is_Str c \<or> c = Null"
proof -
  have "split_parts c ! 0 \<in> set (split_parts c)" for c
    by (cases c) auto
  then show ?thesis using split_parts_cells by auto
qed

lemma apply_strip_last:
  assumes "apply_strip df = Inr out" and "cols df = cs @ [(l, \<lparr>sdtype = Object, vals = vs\<rparr>)]"
    and "\<forall>c\<in>set vs. is_Str c \<or> c = Null"
  shows "\<exists>cs'. strip_columns cs = Inr cs'
           \<and> cols out = cs' @ [(l, \<lparr>sdtype = Object, vals = map strip_cell vs\<rparr>)]"
proof -
  from assms(1) obtain r where r: "strip_columns (cols df) = Inr r" and o: "out = df\<lparr>cols := r\<rparr>"
    by (auto simp: apply_strip_def split: sum.splits)
  have "strip_columns [(l, \<lparr>sdtype = Object, vals = vs\<rparr>)]
          = Inr [(l, \<lparr>sdtype = Object, vals = map strip_cell vs\<rparr>)]"
    by (simp add: strip_column_text [OF assms(3)])
  with r show ?thesis
    unfolding assms(2) strip_columns_append o by (auto split: sum.splits)
qed


lemma league_table_steps:
  assumes "league_table w text = Inr out"
  shows "\<exists>table raw flat vs df.
           find_items_table w text = Some table \<and> read_html w table = Inr raw
           \<and> flatten_columns (raw_columns raw) = Inr flat
           \<and> getitem_str (set_columns raw flat) ''Player/Position'' = Inr vs
           \<and> split_player_position (set_columns raw flat) = Inr df
           \<and> apply_strip (rename_columns LEAGUE_RENAME df) = Inr out"
proof -
  from assms obtain table where t: "find_items_table w text = Some table"
    by (auto simp: league_table_def split: option.splits)
  from assms t obtain raw where r: "read_html w table = Inr raw"
    by (auto simp: league_table_def split: sum.splits)
  from assms t r obtain flat where f: "flatten_columns (raw_columns raw) = Inr flat"
    by (auto simp: league_table_def split: sum.splits)
  from assms t r f obtain df where d: "split_player_position (set_columns raw flat) = Inr df"
    by (auto simp: league_table_def split: sum.splits)
  from assms t r f d have a: "apply_strip (rename_columns LEAGUE_RENAME df) = Inr out"
    by (simp add: league_table_def)
  from d obtain vs where "getitem_str (set_columns raw flat) ''Player/Position'' = Inr vs"
    by (auto simp: split_player_position_def split: sum.splits)
  with t r f d a show ?thesis by blast
qed

lemma league_injuries_steps:
  assumes "get_league_injuries w country_name league_slug league_code = (Inr out, evs)"
  shows "\<exists>slug code text.
           resolve_league country_name league_slug league_code = Inr (slug, code)
           \<and> http_get w (league_url slug code) = Inr text
           \<and> league_table w text = Inr out \<and> evs = [HttpGet (league_url slug code)]"
  using assms
  by (auto simp: get_league_injuries_def split: sum.splits prod.splits)


text \<open>
  Claim C10. Every frame that \<open>get_league_injuries\<close> returns has a \<open>Position\<close>
  column, as its last column: one cell per value of the \<open>Player/Position\<close> column
  of the source table, holding the stripped text after the first newline or null. When no
  value of that column contains a newline the \<open>Position\<close> column is there all the
  same, filled with nulls.
\<close>

theorem league_result_has_position:
  assumes "get_league_injuries w country_name league_slug league_code = (Inr out, evs)"
  shows "LStr ''Position'' \<in> set (labels out)
         \<and> (\<exists>text table raw flat vs.
               find_items_table w text = Some table \<and> read_html w table = Inr raw
               \<and> flatten_columns (raw_columns raw) = Inr flat
               \<and> getitem_str (set_columns raw flat) ''Player/Position'' = Inr vs
               \<and> last (cols out)
                   = (LStr ''Position'',
                      \<lparr>sdtype = Object,
                       vals = map strip_cell
                                (map (\<lambda>c. if 1 < length (split_parts c)
                                          then split_parts c ! 1 else Null) vs)\<rparr>)
               \<and> ((\<forall>c\<in>set vs. \<forall>s. c = Str s \<longrightarrow> newline \<notin> set s) \<longrightarrow>
                    last (cols out)
                      = (LStr ''Position'',
                         \<lparr>sdtype = Object, vals = replicate (length vs) Null\<rparr>)))"
proof -
  from league_injuries_steps [OF assms] obtain page where lt: "league_table w page = Inr out"
    by blast
  from league_table_steps [OF lt] obtain table raw flat vs df where
    t: "find_items_table w page = Some table" and r: "read_html w table = Inr raw"
    and f: "flatten_columns (raw_columns raw) = Inr flat"
    and g: "getitem_str (set_columns raw flat) ''Player/Position'' = Inr vs"
    and d: "split_player_position (set_columns raw flat) = Inr df"
    and a: "apply_strip (rename_columns LEAGUE_RENAME df) = Inr out"
    by blast
  let ?second = "map (\<lambda>c. if 1 < length (split_parts c) then split_parts c ! 1 else Null) vs"
  have "rename_label LEAGUE_RENAME (LStr ''Position'') = LStr ''Position''"
    by (simp add: rename_label_league)
  then have "\<exists>cs. cols (rename_columns LEAGUE_RENAME df)
                 = cs @ [(LStr ''Position'', \<lparr>sdtype = Object, vals = ?second\<rparr>)]"
    using d unfolding split_player_position_cols [OF g]
    by (auto simp: rename_columns_def)
  then obtain cs where c: "cols (rename_columns LEAGUE_RENAME df)
                 = cs @ [(LStr ''Position'', \<lparr>sdtype = Object, vals = ?second\<rparr>)]"
    by blast
  from apply_strip_last [OF a c second_part_text]
  obtain cs' where o: "cols out = cs' @ [(LStr ''Position'',
                                          \<lparr>sdtype = Object, vals = map strip_cell ?second\<rparr>)]"
    by blast
  have l: "last (cols out) = (LStr ''Position'', \<lparr>sdtype = Object, vals = map strip_cell ?second\<rparr>)"
    by (simp add: o)
  have m: "LStr ''Position'' \<in> set (labels out)"
    by (simp add: labels_def o)
  have n: "last (cols out) = (LStr ''Position'', \<lparr>sdtype = Object, vals = replicate (length vs) Null\<rparr>)"
    if "\<forall>c\<in>set vs. \<forall>s. c = Str s \<longrightarrow> newline \<notin> set s"
  proof -
    have "\<not> (\<exists>c\<in>set vs. \<exists>s. c = Str s \<and> newline \<in> set s)" using that by blast
    then have "?second = replicate (length vs) Null" by (rule no_newline_second_part)
    then show ?thesis unfolding l by simp
  qed
  from t r f g l n m show ?thesis by blast
qed


lemma example_plain_result:
  "get_league_injuries example_world None (Some ''liga-x'') (Some ''X1'') =
     (Inr \<lparr>nrows = 2,
           cols = [(LStr ''Team'', \<lparr>sdtype = Object, vals = [Str ''FC Two'', Str ''FC Six'']\<rparr>),
                   (LStr ''Player'', \<lparr>sdtype = Object, vals = [Str ''A. Roe'', Str ''B. Poe'']\<rparr>),
                   (LStr ''Position'', \<lparr>sdtype = Object, vals = [Null, Null]\<rparr>)]\<rparr>,
      [HttpGet ''https://www.transfermarkt.us/liga-x/verletztespieler/wettbewerb/X1''])"
  by (simp add: get_league_injuries_def resolve_league_def LEAGUE_MAP_def league_url_def
        BASE_URL_def example_world_def league_table_def example_plain_frame_def set_columns_def
        split_player_position_def getitem_str_def str_accessor_def str_split_expand_def
        newline_def rename_columns_def rename_label_def labels_def setitem_scalar_def
        concat_columns_def drop_columns_def LEAGUE_RENAME_def apply_strip_def strip_column_def
        py_strip_def py_lstrip_def py_rstrip_def py_isspace_def euro_def upt_rec)

theorem league_result_has_position_witness:
  "get_league_injuries example_world None (Some ''liga-x'') (Some ''X1'') =
     (Inr \<lparr>nrows = 2,
           cols = [(LStr ''Team'', \<lparr>sdtype = Object, vals = [Str ''FC Two'', Str ''FC Six'']\<rparr>),
                   (LStr ''Player'', \<lparr>sdtype = Object, vals = [Str ''A. Roe'', Str ''B. Poe'']\<rparr>),
                   (LStr ''Position'', \<lparr>sdtype = Object, vals = [Null, Null]\<rparr>)]\<rparr>,
      [HttpGet ''https://www.transfermarkt.us/liga-x/verletztespieler/wettbewerb/X1''])
   \<and> LStr ''Position''
       \<in> set (labels \<lparr>nrows = 2,
           cols = [(LStr ''Team'', \<lparr>sdtype = Object, vals = [Str ''FC Two'', Str ''FC Six'']\<rparr>),
                   (LStr ''Player'', \<lparr>sdtype = Object, vals = [Str ''A. Roe'', Str ''B. Poe'']\<rparr>),
                   (LStr ''Position'', \<lparr>sdtype = Object, vals = [Null, Null]\<rparr>)]\<rparr>)"
proof -
  note e = example_plain_result
  from league_result_has_position [OF e]
  have "LStr ''Position''
       \<in> set (labels \<lparr>nrows = 2,
           cols = [(LStr ''Team'', \<lparr>sdtype = Object, vals = [Str ''FC Two'', Str ''FC Six'']\<rparr>),
                   (LStr ''Player'', \<lparr>sdtype = Object, vals = [Str ''A. Roe'', Str ''B. Poe'']\<rparr>),
                   (LStr ''Position'', \<lparr>sdtype = Object, vals = [Null, Null]\<rparr>)]\<rparr>)"
    by (rule conjunct1)
  with e show ?thesis by (rule conjI)
qed

subsection \<open>The columns stamped on a history\<close>






















subsection \<open>The batch over several players\<close>





lemma reindex_columns_length:
  "reindex_columns new f = Inr ss \<Longrightarrow> length ss = length new"
  by (auto simp: reindex_columns_def labels_def split: if_splits)














end
